theory Spec2Isabelle
  imports Main "HOL-Library.Word"
begin

section \<open>The argument tokenizer of \<^verbatim>\<open>lib/parser/dockerfile/split_args.go\<close>\<close>

text \<open>
  A Go \<^verbatim>\<open>string\<close> is a sequence of bytes, and so is a HOL \<^typ>\<open>string\<close>: a
  \<^typ>\<open>char\<close> is one byte. \<^verbatim>\<open>splitArgs\<close> reads the input with
  \<^verbatim>\<open>rune(input[i])\<close>, so the rune handed to \<^verbatim>\<open>nextRune\<close> is always a
  code point between 0 and 255; it is represented by the \<^typ>\<open>char\<close> of that value.
\<close>

abbreviation dquote :: char where "dquote \<equiv> CHR 0x22"
abbreviation backslash :: char where "backslash \<equiv> CHR 0x5C"
abbreviation newline :: char where "newline \<equiv> CHR 0x0A"

text \<open>
  \<^verbatim>\<open>unicode.IsSpace\<close> of Go's standard library on a code point up to
  \<^verbatim>\<open>MaxLatin1\<close>: its switch lists
  \<^verbatim>\<open>'\t', '\n', '\v', '\f', '\r', ' ', 0x85, 0xA0\<close>.
\<close>

definition IsSpace :: "char \<Rightarrow> bool" where
  "IsSpace r \<longleftrightarrow>
     r = CHR 0x09 \<or> r = CHR 0x0A \<or> r = CHR 0x0B \<or> r = CHR 0x0C \<or> r = CHR 0x0D \<or>
     r = CHR 0x20 \<or> r = CHR 0x85 \<or> r = CHR 0xA0"

text \<open>
  Go's conversion \<^verbatim>\<open>string(r)\<close> of a rune yields the UTF-8 encoding of the code point:
  one byte below 0x80, two bytes (\<^verbatim>\<open>0xC0 | r>>6\<close>, \<^verbatim>\<open>0x80 | r&0x3F\<close>) from 0x80 to 0xFF.
\<close>

definition runeString :: "char \<Rightarrow> string" where
  "runeString r =
     (if (of_char r :: nat) < 128 then [r]
      else [char_of (192 + (of_char r :: nat) div 64), char_of (128 + (of_char r :: nat) mod 64)])"

type_synonym error = string

record splitArgsBase =
  args :: "string list"
  currArg :: string
  escaped :: bool
  forShell :: bool

text \<open>
  Every state of the Go code embeds a pointer to the one shared \<^verbatim>\<open>splitArgsBase\<close>; a
  state is its kind together with the current value of that record.
\<close>

datatype splitArgsState =
    splitArgsStateSpace splitArgsBase
  | splitArgsStateArg splitArgsBase
  | splitArgsStateQuote splitArgsBase
  | splitArgsStateEndQuote splitArgsBase
  | splitArgsStateShellCharacters splitArgsBase

fun base :: "splitArgsState \<Rightarrow> splitArgsBase" where
  "base (splitArgsStateSpace s) = s"
| "base (splitArgsStateArg s) = s"
| "base (splitArgsStateQuote s) = s"
| "base (splitArgsStateEndQuote s) = s"
| "base (splitArgsStateShellCharacters s) = s"

text \<open>\<^verbatim>\<open>if len(s.currArg) > 0 { s.args = append(s.args, s.currArg) }\<close>\<close>

definition pushNonEmpty :: "splitArgsBase \<Rightarrow> splitArgsBase" where
  "pushNonEmpty s = (if 0 < length (currArg s) then s\<lparr>args := args s @ [currArg s]\<rparr> else s)"

fun nextRune :: "splitArgsState \<Rightarrow> char \<Rightarrow> error + splitArgsState" where
  "nextRune (splitArgsStateSpace s) r =
     (if IsSpace r then Inr (splitArgsStateSpace s)
      else if r = dquote then
        Inr (splitArgsStateQuote (if forShell s then s\<lparr>currArg := currArg s @ [dquote]\<rparr> else s))
      else if r = backslash then Inr (splitArgsStateArg (s\<lparr>escaped := True\<rparr>))
      else if forShell s \<and> (r = CHR ''&'' \<or> r = CHR ''|'' \<or> r = CHR '';'') then
        Inr (splitArgsStateShellCharacters ((pushNonEmpty s)\<lparr>currArg := runeString r\<rparr>))
      else Inr (splitArgsStateArg (s\<lparr>currArg := currArg s @ runeString r\<rparr>)))"
| "nextRune (splitArgsStateArg s) r =
     (if escaped s then
        (let s1 = (if \<not> IsSpace r \<and> r \<noteq> dquote then s\<lparr>currArg := currArg s @ [backslash]\<rparr> else s);
             s2 = s1\<lparr>escaped := False\<rparr>
         in Inr (splitArgsStateArg (s2\<lparr>currArg := currArg s2 @ runeString r\<rparr>)))
      else if IsSpace r then
        Inr (splitArgsStateSpace (s\<lparr>args := args s @ [currArg s], currArg := []\<rparr>))
      else if forShell s \<and> (r = CHR ''&'' \<or> r = CHR ''|'' \<or> r = CHR '';'') then
        Inr (splitArgsStateShellCharacters ((pushNonEmpty s)\<lparr>currArg := runeString r\<rparr>))
      else Inr (splitArgsStateArg (s\<lparr>currArg := currArg s @ runeString r\<rparr>)))"
| "nextRune (splitArgsStateQuote s) r =
     (if escaped s then
        (let s1 = (if r \<noteq> dquote \<or> forShell s then s\<lparr>currArg := currArg s @ [backslash]\<rparr> else s);
             s2 = s1\<lparr>escaped := False\<rparr>
         in Inr (splitArgsStateQuote (s2\<lparr>currArg := currArg s2 @ runeString r\<rparr>)))
      else if r = backslash then Inr (splitArgsStateQuote (s\<lparr>escaped := True\<rparr>))
      else if r = dquote then
        (let s1 = (if forShell s then s\<lparr>currArg := currArg s @ [dquote]\<rparr> else s)
         in Inr (splitArgsStateEndQuote (s1\<lparr>args := args s1 @ [currArg s1], currArg := []\<rparr>)))
      else Inr (splitArgsStateQuote (s\<lparr>currArg := currArg s @ runeString r\<rparr>)))"
| "nextRune (splitArgsStateEndQuote s) r =
     (if \<not> IsSpace r then
        (if (forShell s \<and> r = CHR ''&'') \<or> r = CHR ''|'' \<or> r = CHR '';'' then
           Inr (splitArgsStateShellCharacters (s\<lparr>currArg := runeString r\<rparr>))
         else Inl ''missing whitespace after argument'')
      else Inr (splitArgsStateSpace s))"
| "nextRune (splitArgsStateShellCharacters s) r =
     (if \<not> forShell s then Inl ''not in a shell''
      else if r \<noteq> CHR ''&'' \<and> r \<noteq> CHR ''|'' \<and> r \<noteq> CHR '';'' then
        (let s1 = pushNonEmpty s
         in if IsSpace r then Inr (splitArgsStateSpace (s1\<lparr>currArg := []\<rparr>))
            else Inr (splitArgsStateSpace (s1\<lparr>currArg := runeString r\<rparr>)))
      else Inr (splitArgsStateShellCharacters (s\<lparr>currArg := currArg s @ runeString r\<rparr>)))"

fun endOfInput :: "splitArgsState \<Rightarrow> error + string list" where
  "endOfInput (splitArgsStateSpace s) = Inr (args s)"
| "endOfInput (splitArgsStateArg s) = Inr (args s @ [currArg s])"
| "endOfInput (splitArgsStateQuote s) =
     Inl (''unexpected termination: missing '' @ [CHR 0x27, dquote, CHR 0x27] @
          '' after argument: '' @ currArg s)"
| "endOfInput (splitArgsStateEndQuote s) = Inr (args s)"
| "endOfInput (splitArgsStateShellCharacters s) = Inr (args s)"

text \<open>The loop of \<^verbatim>\<open>splitArgs\<close>: one \<^verbatim>\<open>nextRune\<close> per byte, leaving at the first error.\<close>

fun splitArgsLoop :: "splitArgsState \<Rightarrow> string \<Rightarrow> error + string list" where
  "splitArgsLoop state [] = endOfInput state"
| "splitArgsLoop state (b # input) =
     (case nextRune state b of
        Inl err \<Rightarrow> Inl err
      | Inr state' \<Rightarrow> splitArgsLoop state' input)"

definition splitArgs :: "string \<Rightarrow> bool \<Rightarrow> error + string list" where
  "splitArgs input forShell' =
     splitArgsLoop
       (splitArgsStateSpace
          \<lparr>args = [], currArg = [], escaped = False, forShell = forShell'\<rparr>)
       input"


section \<open>The ENTRYPOINT directive of \<^verbatim>\<open>lib/parser/dockerfile/entrypoint.go\<close>\<close>

text \<open>\<^verbatim>\<open>strings.Join(elems, sep)\<close>: the elements with \<^verbatim>\<open>sep\<close> between neighbours.\<close>

fun Join :: "string list \<Rightarrow> string \<Rightarrow> string" where
  "Join [] sep = []"
| "Join [x] sep = x"
| "Join (x # y # ys) sep = x @ sep @ Join (y # ys) sep"

text \<open>
  \<^verbatim>\<open>newEntrypointDirective\<close> calls three functions of the package that are not part of
  the two files under study; they are parameters here:
  \<^item> \<^verbatim>\<open>base.replaceVarsCurrStage(state)\<close>, which rewrites \<^verbatim>\<open>base.Args\<close> or fails;
  \<^item> \<^verbatim>\<open>parseJSONArray\<close>, which returns the array and \<^verbatim>\<open>true\<close>, or \<^verbatim>\<open>false\<close>;
  \<^item> \<^verbatim>\<open>base.err\<close>, which decorates an error of the tokenizer.

  The result is the \<^verbatim>\<open>Entrypoint\<close> field of the directive that is returned.
\<close>

definition newEntrypointDirective ::
  "(string \<Rightarrow> error + string) \<Rightarrow> (string \<Rightarrow> string list option) \<Rightarrow> (error \<Rightarrow> error) \<Rightarrow>
   string \<Rightarrow> error + string list" where
  "newEntrypointDirective replaceVarsCurrStage parseJSONArray baseErr baseArgs =
     (case replaceVarsCurrStage baseArgs of
        Inl err \<Rightarrow> Inl err
      | Inr replaced \<Rightarrow>
          (case parseJSONArray replaced of
             Some entrypoint \<Rightarrow> Inr entrypoint
           | None \<Rightarrow>
               (case splitArgs replaced True of
                  Inl err \<Rightarrow> Inl (baseErr err)
                | Inr args1 \<Rightarrow> Inr ([''/bin/sh'', ''-c''] @ [Join args1 '' '']))))"

section \<open>\<^verbatim>\<open>ExecCommand\<close> of package \<^verbatim>\<open>shell\<close>\<close>

text \<open>
  The command that \<^verbatim>\<open>ExecCommand\<close> configures before it starts it: the fields of
  \<^verbatim>\<open>exec.Cmd\<close> and of its \<^verbatim>\<open>SysProcAttr\<close> that the function sets.
\<close>

record Cmd =
  Path :: string
  Args :: "string list"
  Dir :: string
  Env :: "string list"
  Setpgid :: bool
  Credential :: "(32 word \<times> 32 word) option"

text \<open>
  What \<^verbatim>\<open>cmd.Wait()\<close> returns: \<^verbatim>\<open>nil\<close>, an \<^verbatim>\<open>*exec.ExitError\<close> (which holds the wait
  status \<open>'ws\<close> of the process), or another error.
\<close>

datatype 'ws waitResult = WaitNil | WaitExitError 'ws | WaitError error

text \<open>
  The operating system and the helpers outside the file, as the function sees them:
  \<^verbatim>\<open>utils.ResolveChown\<close>, \<^verbatim>\<open>os.Environ\<close>, \<^verbatim>\<open>cmd.Start\<close>, \<^verbatim>\<open>cmd.Wait\<close>, and
  \<^verbatim>\<open>ExitStatus\<close> of the wait status of an exit error.
\<close>

record 'ws system =
  ResolveChown :: "string \<Rightarrow> error + (int \<times> int)"
  Environ :: "string list"
  Start :: "Cmd \<Rightarrow> error option"
  Wait :: "Cmd \<Rightarrow> 'ws waitResult"
  ExitStatus :: "'ws \<Rightarrow> int"

text \<open>
  The error returned: a \<^verbatim>\<open>fmt.Errorf\<close> text, or the \<^verbatim>\<open>*exec.ExitError\<close> itself.
\<close>

datatype 'ws execError = ErrorString string | ExitError 'ws

text \<open>
  A call of a sink \<^verbatim>\<open>func(string, ...interface{})\<close>: the format and its arguments.
\<close>

datatype fmtArg = IntArg int | StrArg string

type_synonym sinkCall = "string \<times> fmtArg list"

text \<open>\<^verbatim>\<open>strings.Split(user, ":")[0]\<close>: the text before the first colon.\<close>

definition userName :: "string \<Rightarrow> string" where
  "userName user = takeWhile (\<lambda>c. c \<noteq> CHR '':'') user"

text \<open>
  The first part of \<^verbatim>\<open>ExecCommand\<close>, up to \<^verbatim>\<open>cmd.Env = currentEnv\<close>: the command as
  configured, or the text of the error when the user cannot be resolved.
\<close>

definition buildCmd ::
  "'ws system \<Rightarrow> string \<Rightarrow> string \<Rightarrow> string \<Rightarrow> string list \<Rightarrow> error + Cmd" where
  "buildCmd sys workingDir user cmdName cmdArgs =
     (let cmd1 = \<lparr>Path = cmdName, Args = cmdName # cmdArgs, Dir = [], Env = [],
                  Setpgid = False, Credential = None\<rparr>;
          cmd2 = (if workingDir \<noteq> [] then cmd1\<lparr>Dir := workingDir\<rparr> else cmd1);
          cmd3 = cmd2\<lparr>Setpgid := True\<rparr>;
          currentEnv = Environ sys
      in if user \<noteq> [] then
           (case ResolveChown sys user of
              Inl err \<Rightarrow> Inl (''cmd user resolve: '' @ err)
            | Inr (uid, gid) \<Rightarrow>
                Inr (cmd3\<lparr>Credential := Some (word_of_int uid, word_of_int gid),
                          Env := currentEnv @ [''HOME=/home/'' @ userName user]\<rparr>))
         else Inr (cmd3\<lparr>Env := currentEnv\<rparr>))"

text \<open>
  The last part, \<^verbatim>\<open>cmd.Start()\<close> and \<^verbatim>\<open>cmd.Wait()\<close>. The result is the list of calls
  that the function itself makes of \<^verbatim>\<open>errStream\<close>, and the error returned (\<^verbatim>\<open>nil\<close> is
  \<open>None\<close>). The two goroutines that copy the pipes into the sinks run beside this and
  are not part of the value.
\<close>

definition startAndWait :: "'ws system \<Rightarrow> Cmd \<Rightarrow> sinkCall list \<times> 'ws execError option" where
  "startAndWait sys cmd =
     (case Start sys cmd of
        Some err \<Rightarrow> ([], Some (ErrorString (''cmd start: '' @ err)))
      | None \<Rightarrow>
          (case Wait sys cmd of
             WaitNil \<Rightarrow> ([], None)
           | WaitExitError ws \<Rightarrow>
               (let exitCode = ExitStatus sys ws in
                ([(''Command exited with %d'' @ [newline], [IntArg exitCode])],
                 Some (ExitError ws)))
           | WaitError err \<Rightarrow> ([], Some (ErrorString (''cmd wait: '' @ err)))))"

definition ExecCommand ::
  "'ws system \<Rightarrow> string \<Rightarrow> string \<Rightarrow> string \<Rightarrow> string list \<Rightarrow>
   sinkCall list \<times> 'ws execError option" where
  "ExecCommand sys workingDir user cmdName cmdArgs =
     (case buildCmd sys workingDir user cmdName cmdArgs of
        Inl msg \<Rightarrow> ([], Some (ErrorString msg))
      | Inr cmd \<Rightarrow> startAndWait sys cmd)"

section \<open>Vocabulary of the statements\<close>

fun inSpace :: "splitArgsState \<Rightarrow> bool" where
  "inSpace (splitArgsStateSpace s) = True"
| "inSpace _ = False"

fun inQuote :: "splitArgsState \<Rightarrow> bool" where
  "inQuote (splitArgsStateQuote s) = True"
| "inQuote _ = False"

text \<open>
  An ASCII byte that is neither whitespace, nor a double quote, nor a backslash; a token
  made of such bytes, with at least one.
\<close>

definition plainChar :: "char \<Rightarrow> bool" where
  "plainChar c \<longleftrightarrow>
     (of_char c :: nat) < 128 \<and> \<not> IsSpace c \<and> c \<noteq> dquote \<and> c \<noteq> backslash"

definition plainToken :: "string \<Rightarrow> bool" where
  "plainToken t \<longleftrightarrow> t \<noteq> [] \<and> list_all plainChar t"

text \<open>A byte of a multi-byte UTF-8 sequence, other than the two that \<^const>\<open>IsSpace\<close> accepts.\<close>

definition highByte :: "char \<Rightarrow> bool" where
  "highByte c \<longleftrightarrow> 128 \<le> (of_char c :: nat) \<and> c \<noteq> CHR 0x85 \<and> c \<noteq> CHR 0xA0"

text \<open>The collaborators used to run \<^const>\<open>newEntrypointDirective\<close> on examples.\<close>

definition keepArgs :: "string \<Rightarrow> error + string" where
  "keepArgs a = Inr a"

definition sampleJSON :: "string \<Rightarrow> string list option" where
  "sampleJSON a =
     (if a = [CHR ''['', dquote, CHR ''a'', dquote, CHR '','', dquote, CHR ''b'', dquote, CHR '']'']
      then Some [''a'', ''b''] else None)"

definition lineErr :: "error \<Rightarrow> error" where
  "lineErr e = ''line 1: '' @ e"

text \<open>
  Two systems used to run \<^const>\<open>ExecCommand\<close> on examples: in the first every command
  starts and exits with status 7, in the second no command starts.
\<close>

definition exits7 :: "int system" where
  "exits7 = \<lparr>ResolveChown = (\<lambda>u. Inr (1000, 1000)), Environ = [''PATH=/bin''],
             Start = (\<lambda>c. None), Wait = (\<lambda>c. WaitExitError 7), ExitStatus = (\<lambda>ws. ws)\<rparr>"

definition noStart :: "int system" where
  "noStart = \<lparr>ResolveChown = (\<lambda>u. Inr (1000, 1000)), Environ = [''PATH=/bin''],
              Start = (\<lambda>c. Some ''no such file''), Wait = (\<lambda>c. WaitNil),
              ExitStatus = (\<lambda>ws. ws)\<rparr>"


section \<open>Lemmas on the loop\<close>

lemma runeString_ascii: "(of_char c :: nat) < 128 \<Longrightarrow> runeString c = [c]"
  by (simp add: runeString_def)

text \<open>In plain mode an unquoted word swallows plain bytes one after the other.\<close>

lemma arg_run:
  "list_all plainChar t \<Longrightarrow> \<not> escaped s \<Longrightarrow> \<not> forShell s \<Longrightarrow>
   splitArgsLoop (splitArgsStateArg s) (t @ rest) =
   splitArgsLoop (splitArgsStateArg (s\<lparr>currArg := currArg s @ t\<rparr>)) rest"
proof (induction t arbitrary: s)
  case Nil
  then show ?case by simp
next
  case (Cons c t)
  then show ?case by (simp add: runeString_ascii plainChar_def)
qed

lemma token_run:
  assumes "plainToken t" "\<not> escaped s" "\<not> forShell s" "currArg s = []"
  shows "splitArgsLoop (splitArgsStateSpace s) (t @ rest) =
         splitArgsLoop (splitArgsStateArg (s\<lparr>currArg := t\<rparr>)) rest"
proof -
  from assms(1) obtain c cs
    where t: "t = c # cs" and c: "plainChar c" and cs: "list_all plainChar cs"
    by (cases t) (auto simp: plainToken_def)
  have "splitArgsLoop (splitArgsStateSpace s) (t @ rest) =
        splitArgsLoop (splitArgsStateArg (s\<lparr>currArg := [c]\<rparr>)) (cs @ rest)"
    using c assms(2-4) by (simp add: t plainChar_def runeString_ascii)
  also have "\<dots> = splitArgsLoop (splitArgsStateArg (s\<lparr>currArg := [c] @ cs\<rparr>)) rest"
    using arg_run [OF cs, of "s\<lparr>currArg := [c]\<rparr>" rest] assms(2,3) by simp
  finally show ?thesis by (simp add: t)
qed

lemma join_run:
  "list_all plainToken toks \<Longrightarrow> \<not> escaped s \<Longrightarrow> \<not> forShell s \<Longrightarrow> currArg s = [] \<Longrightarrow>
   splitArgsLoop (splitArgsStateSpace s) (Join toks '' '') = Inr (args s @ toks)"
proof (induction toks "'' ''" arbitrary: s rule: Join.induct)
  case 1
  then show ?case by simp
next
  case (2 x)
  then show ?case
    using token_run [of x s "[]"] by simp
next
  case (3 x y ys)
  have "splitArgsLoop (splitArgsStateSpace s) (Join (x # y # ys) '' '') =
        splitArgsLoop (splitArgsStateArg (s\<lparr>currArg := x\<rparr>)) (CHR '' '' # Join (y # ys) '' '')"
    using token_run [of x s "CHR '' '' # Join (y # ys) '' ''"] 3 by simp
  also have "\<dots> =
        splitArgsLoop (splitArgsStateSpace (s\<lparr>args := args s @ [x], currArg := []\<rparr>))
          (Join (y # ys) '' '')"
    using 3(3,4) by (simp add: IsSpace_def)
  also have "\<dots> = Inr (args s @ x # y # ys)"
    using 3(1) [of "s\<lparr>args := args s @ [x], currArg := []\<rparr>"] 3(2-5) by simp
  finally show ?case .
qed

text \<open>
  Within ASCII the tokenizer undoes \<^const>\<open>Join\<close>: plain tokens joined by single spaces
  come back as they were.
\<close>

lemma splitArgs_Join_ascii:
  "list_all plainToken toks \<Longrightarrow> splitArgs (Join toks '' '') False = Inr toks"
  using join_run [of toks "\<lparr>args = [], currArg = [], escaped = False, forShell = False\<rparr>"]
  by (simp add: splitArgs_def)

lemma highByte_plain:
  "highByte c \<Longrightarrow>
   \<not> IsSpace c \<and> c \<noteq> dquote \<and> c \<noteq> backslash \<and> c \<noteq> CHR ''&'' \<and> c \<noteq> CHR ''|'' \<and> c \<noteq> CHR '';''"
  by (auto simp: highByte_def IsSpace_def)

lemma high_run:
  "list_all highByte t \<Longrightarrow> \<not> escaped s \<Longrightarrow>
   splitArgsLoop (splitArgsStateArg s) t =
   Inr (args s @ [currArg s @ concat (map runeString t)])"
proof (induction t arbitrary: s)
  case Nil
  then show ?case by simp
next
  case (Cons c t)
  then show ?case using highByte_plain [of c] by simp
qed

text \<open>
  Outside ASCII every byte of a word comes back as the two bytes of \<^const>\<open>runeString\<close>, in
  both modes.
\<close>

lemma splitArgs_high_word:
  assumes "w \<noteq> []" "list_all highByte w"
  shows "splitArgs w fs = Inr [concat (map runeString w)]"
proof (cases w)
  case Nil
  with assms(1) show ?thesis by simp
next
  case (Cons c t)
  with assms(2) have c: "highByte c" and t: "list_all highByte t" by simp_all
  show ?thesis
    using highByte_plain [OF c]
      high_run [OF t, of "\<lparr>args = [], currArg = runeString c, escaped = False, forShell = fs\<rparr>"]
    by (simp add: splitArgs_def Cons)
qed

text \<open>
  One step sets the escape flag only on a backslash, and only from the state of spaces or
  inside quotes.
\<close>

lemma escaped_set_by_backslash:
  assumes "nextRune s r = Inr s'" "escaped (base s')" "\<not> escaped (base s)"
  shows "r = backslash \<and> (inSpace s \<or> inQuote s)"
  using assms by (cases s) (auto simp: Let_def pushNonEmpty_def split: if_splits)

text \<open>
  In the state of an unquoted word, with no escape pending, a backslash is appended like
  any other character and the flag stays clear.
\<close>

lemma word_backslash_appended:
  "\<not> escaped b \<Longrightarrow>
   nextRune (splitArgsStateArg b) backslash =
     Inr (splitArgsStateArg (b\<lparr>currArg := currArg b @ [backslash]\<rparr>))"
  by (simp add: IsSpace_def runeString_def)

section \<open>The claims\<close>

text \<open>
  C1, as stated, fails: in plain mode the input of four double quotes does not give two
  empty tokens.
\<close>

theorem four_quotes_not_two_tokens:
  "splitArgs [dquote, dquote, dquote, dquote] False \<noteq> Inr [[], []]"
  by code_simp

text \<open>
  C1, amended: in plain mode the input of four double quotes is refused with
  "missing whitespace after argument", because a double quote that comes directly after
  a closing quote is refused, whatever the mode and the rest of the state; two quoted
  empty strings with one space between them give exactly two tokens, both empty.
\<close>

theorem four_quotes_missing_whitespace:
  "nextRune (splitArgsStateEndQuote s) dquote = Inl ''missing whitespace after argument''
   \<and> splitArgs [dquote, dquote, dquote, dquote] False =
       Inl ''missing whitespace after argument''
   \<and> splitArgs [dquote, dquote, CHR '' '', dquote, dquote] False = Inr [[], []]"
proof (intro conjI)
  show "nextRune (splitArgsStateEndQuote s) dquote = Inl ''missing whitespace after argument''"
    by (simp add: IsSpace_def)
next
  show "splitArgs [dquote, dquote, dquote, dquote] False =
      Inl ''missing whitespace after argument''"
    by code_simp
next
  show "splitArgs [dquote, dquote, CHR '' '', dquote, dquote] False = Inr [[], []]"
    by code_simp
qed



text \<open>
  C3: at the end of the input the state of shell operators returns \<^verbatim>\<open>args\<close> without the
  pending operator. In shell mode \<^verbatim>\<open>ls &&\<close> gives only \<^verbatim>\<open>ls\<close>, while with one more
  space at the end the operator is kept.
\<close>

theorem trailing_operator_dropped:
  "splitArgs ''ls &&'' True = Inr [''ls'']
   \<and> splitArgs ''ls && '' True = Inr [''ls'', ''&&'']"
  by code_simp

text \<open>
  C4: after a run of operators a character that is neither an operator nor whitespace is
  stored in \<^verbatim>\<open>currArg\<close> and the machine goes to the state of spaces, where whitespace
  does not close a token. In shell mode \<^verbatim>\<open>a&&b c\<close> gives \<^verbatim>\<open>a\<close>, \<^verbatim>\<open>&&\<close>, \<^verbatim>\<open>bc\<close>, and
  \<^verbatim>\<open>a&&b\<close> loses \<^verbatim>\<open>b\<close>.
\<close>

theorem word_after_operator_merged:
  "splitArgs ''a&&b c'' True = Inr [''a'', ''&&'', ''bc'']
   \<and> splitArgs ''a&&b'' True = Inr [''a'', ''&&'']"
  by code_simp

text \<open>
  C5: in plain mode, after a closing quote, \<^verbatim>\<open>|\<close> and \<^verbatim>\<open>;\<close> are accepted (the test
  \<^verbatim>\<open>s.forShell && r == '&' || r == '|' || r == ';'\<close> binds \<^verbatim>\<open>&&\<close> first): \<^verbatim>\<open>"a"|\<close> and
  \<^verbatim>\<open>"a";\<close> give the token \<^verbatim>\<open>a\<close> with no error, \<^verbatim>\<open>"a"|b\<close> fails with "not in a shell",
  and only \<^verbatim>\<open>"a"&\<close> fails with "missing whitespace after argument".
\<close>

theorem pipe_after_quote_accepted_in_plain_mode:
  "splitArgs [dquote, CHR ''a'', dquote, CHR ''|''] False = Inr [''a'']
   \<and> splitArgs [dquote, CHR ''a'', dquote, CHR '';''] False = Inr [''a'']
   \<and> splitArgs [dquote, CHR ''a'', dquote, CHR ''|'', CHR ''b''] False = Inl ''not in a shell''
   \<and> splitArgs [dquote, CHR ''a'', dquote, CHR ''&''] False =
       Inl ''missing whitespace after argument''"
  by code_simp

text \<open>
  C6: once the variables are replaced, \<^const>\<open>newEntrypointDirective\<close> returns the JSON
  array as it is when the argument parses as one (exec form); otherwise it tokenizes the
  argument in shell mode and returns \<^verbatim>\<open>/bin/sh\<close>, \<^verbatim>\<open>-c\<close> and the tokens joined by single
  spaces (shell form), or the tokenizer's error passed through \<^verbatim>\<open>base.err\<close>.
\<close>

theorem newEntrypointDirective_forms:
  assumes "replaceVarsCurrStage baseArgs = Inr raw"
  shows "(parseJSONArray raw = Some entrypoint \<longrightarrow>
            newEntrypointDirective replaceVarsCurrStage parseJSONArray baseErr baseArgs =
              Inr entrypoint)
       \<and> (parseJSONArray raw = None \<longrightarrow> splitArgs raw True = Inr toks \<longrightarrow>
            newEntrypointDirective replaceVarsCurrStage parseJSONArray baseErr baseArgs =
              Inr [''/bin/sh'', ''-c'', Join toks '' ''])
       \<and> (parseJSONArray raw = None \<longrightarrow> splitArgs raw True = Inl err \<longrightarrow>
            newEntrypointDirective replaceVarsCurrStage parseJSONArray baseErr baseArgs =
              Inl (baseErr err))"
  using assms by (simp add: newEntrypointDirective_def)

text \<open>
  C6 on examples: \<^verbatim>\<open>["a","b"]\<close> is returned as \<^verbatim>\<open>a\<close>, \<^verbatim>\<open>b\<close>; \<^verbatim>\<open>echo hi\<close> becomes
  \<^verbatim>\<open>/bin/sh\<close>, \<^verbatim>\<open>-c\<close>, \<^verbatim>\<open>echo hi\<close>; \<^verbatim>\<open>"a"x\<close> is the tokenizer's error, decorated.
\<close>

theorem newEntrypointDirective_forms_witness:
  "newEntrypointDirective keepArgs sampleJSON lineErr
     [CHR ''['', dquote, CHR ''a'', dquote, CHR '','', dquote, CHR ''b'', dquote, CHR '']''] =
     Inr [''a'', ''b'']
   \<and> newEntrypointDirective keepArgs sampleJSON lineErr ''echo hi'' =
       Inr [''/bin/sh'', ''-c'', ''echo hi'']
   \<and> newEntrypointDirective keepArgs sampleJSON lineErr [dquote, CHR ''a'', dquote, CHR ''x''] =
       Inl ''line 1: missing whitespace after argument''"
proof -
  let ?json = "[CHR ''['', dquote, CHR ''a'', dquote, CHR '','', dquote, CHR ''b'', dquote, CHR '']'']"
  let ?bad = "[dquote, CHR ''a'', dquote, CHR ''x'']"
  have k: "\<And>a. keepArgs a = Inr a" by (simp add: keepArgs_def)
  have j1: "sampleJSON ?json = Some [''a'', ''b'']" by (simp add: sampleJSON_def)
  have j2: "sampleJSON ''echo hi'' = None" by (simp add: sampleJSON_def)
  have j3: "sampleJSON ?bad = None" by (simp add: sampleJSON_def)
  have t2: "splitArgs ''echo hi'' True = Inr [''echo'', ''hi'']" by code_simp
  have t3: "splitArgs ?bad True = Inl ''missing whitespace after argument''" by code_simp
  have e: "lineErr ''missing whitespace after argument'' =
           ''line 1: missing whitespace after argument''" by (simp add: lineErr_def)
  show ?thesis
    using
      newEntrypointDirective_forms
        [where replaceVarsCurrStage = keepArgs and parseJSONArray = sampleJSON
           and baseErr = lineErr and entrypoint = "[''a'', ''b'']", OF k [of ?json]]
      newEntrypointDirective_forms
        [where replaceVarsCurrStage = keepArgs and parseJSONArray = sampleJSON
           and baseErr = lineErr and toks = "[''echo'', ''hi'']", OF k [of "''echo hi''"]]
      newEntrypointDirective_forms
        [where replaceVarsCurrStage = keepArgs and parseJSONArray = sampleJSON
           and baseErr = lineErr and err = "''missing whitespace after argument''",
         OF k [of ?bad]]
      j1 j2 j3 t2 t3 e
    by simp
qed

text \<open>
  C7: when the command is configured, starts, and \<^verbatim>\<open>cmd.Wait\<close> returns an exit error
  (the process ended with a status other than 0), \<^const>\<open>ExecCommand\<close> calls the stderr sink
  once, with the format \<^verbatim>\<open>Command exited with %d\<close> and a newline, and the exit status as
  its argument, and returns the exit error itself, which holds that status. When the
  command does not start, the result is the text \<^verbatim>\<open>cmd start: ...\<close> and the sink is not
  called; the two results are different values.
\<close>

theorem ExecCommand_exit_error:
  assumes "buildCmd sys workingDir user cmdName cmdArgs = Inr cmd"
  shows "(Start sys cmd = None \<longrightarrow> Wait sys cmd = WaitExitError ws \<longrightarrow>
            ExecCommand sys workingDir user cmdName cmdArgs =
              ([(''Command exited with %d'' @ [newline], [IntArg (ExitStatus sys ws)])],
               Some (ExitError ws)))
       \<and> (Start sys cmd = Some err \<longrightarrow>
            ExecCommand sys workingDir user cmdName cmdArgs =
              ([], Some (ErrorString (''cmd start: '' @ err))))
       \<and> ExitError ws \<noteq> ErrorString msg"
  using assms by (simp add: ExecCommand_def startAndWait_def)

text \<open>
  C7 on examples: a command that exits with status 7, run as user \<^verbatim>\<open>app:app\<close>, and a
  command that does not start.
\<close>

theorem ExecCommand_exit_error_witness:
  "ExecCommand exits7 ''/work'' ''app:app'' ''false'' [] =
     ([(''Command exited with %d'' @ [newline], [IntArg 7])], Some (ExitError 7))
   \<and> ExecCommand noStart [] [] ''missing'' [] =
       ([], Some (ErrorString ''cmd start: no such file''))"
proof -
  obtain c1 where b1: "buildCmd exits7 ''/work'' ''app:app'' ''false'' [] = Inr c1"
    by (simp add: buildCmd_def exits7_def)
  obtain c2 where b2: "buildCmd noStart [] [] ''missing'' [] = Inr c2"
    by (simp add: buildCmd_def noStart_def)
  have s1: "Start exits7 c1 = None" "Wait exits7 c1 = WaitExitError 7" "ExitStatus exits7 7 = 7"
    by (simp_all add: exits7_def)
  have s2: "Start noStart c2 = Some ''no such file''"
    by (simp add: noStart_def)
  show ?thesis
    using ExecCommand_exit_error [where ws = 7, OF b1]
      ExecCommand_exit_error [where err = "''no such file''", OF b2]
      s1 s2
    by simp
qed

text \<open>
  C8: the tokenizer reads bytes and appends \<^verbatim>\<open>string(r)\<close>, the UTF-8 encoding of the code
  point whose number is the byte. The token \<^verbatim>\<open>0xC3 0xA9\<close> (the letter e with an acute
  accent) has no whitespace, quote or backslash, and joined and tokenized in plain mode
  it comes back as the four bytes \<^verbatim>\<open>0xC3 0x83 0xC2 0xA9\<close>.
\<close>

theorem non_ascii_token_not_restored:
  "splitArgs (Join [[CHR 0xC3, CHR 0xA9]] '' '') False =
     Inr [[CHR 0xC3, CHR 0x83, CHR 0xC2, CHR 0xA9]]"
  by code_simp

text \<open>
  C9: in shell mode a backslash in the middle of an unquoted word does arm the escape
  flag when the word follows a run of operators. The first character after the run is
  stored in \<^verbatim>\<open>currArg\<close> and the machine is left in the state of spaces with the word
  open; there the backslash sets \<^verbatim>\<open>escaped\<close>, and the space after it is appended to the
  word. So \<^verbatim>\<open>a&&b\ c\<close> gives \<^verbatim>\<open>a\<close>, \<^verbatim>\<open>&&\<close> and the one token \<^verbatim>\<open>b c\<close>, where a literal
  backslash would give \<^verbatim>\<open>b\\<close> and \<^verbatim>\<open>c\<close>. In plain mode \<^verbatim>\<open>a\ b\<close> does give \<^verbatim>\<open>a\\<close> and
  \<^verbatim>\<open>b\<close>.
\<close>

theorem backslash_in_word_after_operator_escapes:
  "splitArgs [CHR ''a'', CHR ''&'', CHR ''&'', CHR ''b'', backslash, CHR '' '', CHR ''c''] True =
     Inr [''a'', ''&&'', ''b c'']
   \<and> splitArgs [CHR ''a'', backslash, CHR '' '', CHR ''b''] False =
       Inr [[CHR ''a'', backslash], [CHR ''b'']]"
  by code_simp

text \<open>
  C10: the bytes of a multi-byte character do not pass through. The byte \<^verbatim>\<open>0xA0\<close> is
  whitespace for \<^const>\<open>IsSpace\<close>, so the no-break space U+00A0 (bytes \<^verbatim>\<open>0xC2 0xA0\<close>)
  between \<^verbatim>\<open>a\<close> and \<^verbatim>\<open>b\<close> separates two tokens, and the byte \<^verbatim>\<open>0xC2\<close> left on the first
  one is written as \<^verbatim>\<open>0xC3 0x82\<close>; the letter a with a grave accent (bytes \<^verbatim>\<open>0xC3 0xA0\<close>)
  inside a word cuts the word in two.
\<close>

theorem no_break_space_separates:
  "splitArgs [CHR ''a'', CHR 0xC2, CHR 0xA0, CHR ''b''] False =
     Inr [[CHR ''a'', CHR 0xC3, CHR 0x82], [CHR ''b'']]
   \<and> splitArgs [CHR ''a'', CHR 0xC3, CHR 0xA0, CHR ''b''] False =
       Inr [[CHR ''a'', CHR 0xC3, CHR 0x83], [CHR ''b'']]"
  by code_simp

end
